theory Spec2Isabelle
  imports Complex_Main
begin

section \<open>Failures and numbers\<close>

text \<open>
  Every panic of the Go code is a value of \<open>error\<close>; a function that can panic returns
  \<open>error + 'a\<close> with \<open>Inl\<close> for the panic. The constructors are named after the place
  the panic comes from: the two explicit \<^verbatim>\<open>panic\<close> calls of qnetwork.go, the shape
  panics of gonum's \<^verbatim>\<open>mat\<close> package, the Go runtime and \<^verbatim>\<open>math/rand\<close>.
\<close>

datatype error =
    InputSizeMismatch
  | LengthMismatch
  | ErrShape
  | ErrZeroLength
  | ErrNegativeDimension
  | IndexOutOfRange
  | SliceBoundsOutOfRange
  | MakesliceLenOutOfRange
  | IntnInvalidArgument

definition bindE :: "error + 'a \<Rightarrow> ('a \<Rightarrow> error + 'b) \<Rightarrow> error + 'b" where
  "bindE m f = (case m of Inl e \<Rightarrow> Inl e | Inr x \<Rightarrow> f x)"

text \<open>
  A finite \<^verbatim>\<open>float64\<close> is modelled by a \<open>real\<close>: the rounding of the arithmetic
  operations is not modelled, the rounding of the conversion from \<^verbatim>\<open>int\<close> is. Go does
  not panic on a floating-point division by zero; the quotient is an IEEE-754 special
  value. The two divisions of the program whose divisor can be zero (in \<^verbatim>\<open>Loss\<close> and
  in \<^verbatim>\<open>Normalize\<close>) therefore return an \<open>f64\<close>. In both the zero divisor is the
  positive zero, so a positive dividend gives \<open>PosInf\<close> and a negative one \<open>NegInf\<close>.
\<close>

datatype f64 = Finite real | PosInf | NegInf | NaN

definition fdiv :: "real \<Rightarrow> real \<Rightarrow> f64" where
  "fdiv x y =
     (if y \<noteq> 0 then Finite (x / y)
      else if x = 0 then NaN
      else if 0 < x then PosInf
      else NegInf)"

text \<open>
  \<^verbatim>\<open>rand.Intn(n)\<close> panics for \<open>n \<le> 0\<close> and otherwise returns some index below \<open>n\<close>.
  The generator's raw output \<open>s\<close> is a parameter; reducing it modulo \<open>n\<close> reaches every
  index below \<open>n\<close> and no other.
\<close>

definition Intn :: "int \<Rightarrow> nat \<Rightarrow> error + int" where
  "Intn n s = (if n \<le> 0 then Inl IntnInvalidArgument else Inr (int s mod n))"

section \<open>replaybuffer.go\<close>

record Experience =
  State :: "real list"
  NextState :: "real list"
  Action :: int
  Reward :: int
  Done :: bool

record ReplayBuffer =
  buffer :: "Experience list"
  size_rb :: int

definition NewReplayBuffer :: "int \<Rightarrow> ReplayBuffer" where
  "NewReplayBuffer n = \<lparr>buffer = [], size_rb = n\<rparr>"

text \<open>The slice expression \<^verbatim>\<open>s[1:]\<close>: a run-time panic when \<open>s\<close> is empty.\<close>

definition slice_from1 :: "'a list \<Rightarrow> error + 'a list" where
  "slice_from1 s = (case s of [] \<Rightarrow> Inl SliceBoundsOutOfRange | _ # rest \<Rightarrow> Inr rest)"

definition Add :: "ReplayBuffer \<Rightarrow> Experience \<Rightarrow> error + ReplayBuffer" where
  "Add rb e =
     bindE (if int (length (buffer rb)) \<ge> size_rb rb then slice_from1 (buffer rb)
            else Inr (buffer rb))
       (\<lambda>b. Inr (rb\<lparr>buffer := b @ [e]\<rparr>))"

text \<open>A caller's sequence of \<^verbatim>\<open>Add\<close> calls, stopping at the first panic.\<close>

fun AddAll :: "ReplayBuffer \<Rightarrow> Experience list \<Rightarrow> error + ReplayBuffer" where
  "AddAll rb [] = Inr rb"
| "AddAll rb (e # es) = bindE (Add rb e) (\<lambda>rb'. AddAll rb' es)"

text \<open>
  \<^verbatim>\<open>Sample\<close>: \<open>draws i\<close> is the generator's raw output at the \<open>i\<close>-th iteration of the
  loop. \<^verbatim>\<open>make\<close> panics on a negative length; the loop body runs once per element of
  the new slice.
\<close>

fun Sample_loop :: "Experience list \<Rightarrow> (nat \<Rightarrow> nat) \<Rightarrow> nat \<Rightarrow> nat \<Rightarrow> error + Experience list" where
  "Sample_loop buf draws i 0 = Inr []"
| "Sample_loop buf draws i (Suc k) =
     bindE (Intn (int (length buf)) (draws i)) (\<lambda>j.
     bindE (Sample_loop buf draws (Suc i) k) (\<lambda>rest.
       Inr (buf ! nat j # rest)))"

definition Sample :: "ReplayBuffer \<Rightarrow> int \<Rightarrow> (nat \<Rightarrow> nat) \<Rightarrow> error + Experience list" where
  "Sample rb batchSize draws =
     (if batchSize < 0 then Inl MakesliceLenOutOfRange
      else Sample_loop (buffer rb) draws 0 (nat batchSize))"

definition zero_draws :: "nat \<Rightarrow> nat" where
  "zero_draws i = 0"

section \<open>utils.go\<close>

text \<open>
  \<^verbatim>\<open>Normalize\<close>: the running maximum starts at the zero value of \<^verbatim>\<open>float64\<close>; every
  component is then divided by it, with no test of the divisor. The Go function
  overwrites its argument and returns the same slice.
\<close>

fun Normalize_max :: "real \<Rightarrow> real list \<Rightarrow> real" where
  "Normalize_max maxVal [] = maxVal"
| "Normalize_max maxVal (val # rest) =
     (if val > maxVal then Normalize_max val rest else Normalize_max maxVal rest)"

definition Normalize :: "real list \<Rightarrow> f64 list" where
  "Normalize state = (let maxVal = Normalize_max 0 state in map (\<lambda>v. fdiv v maxVal) state)"

section \<open>gonum vectors and matrices\<close>

text \<open>
  A \<^verbatim>\<open>mat.VecDense\<close> is the list of its elements, a \<^verbatim>\<open>mat.Dense\<close> the list of its
  rows. The operations are those of gonum's \<^verbatim>\<open>mat\<close> package that qnetwork.go calls:
  each stores its result in the receiver, which is the first argument here, and panics
  with \<^verbatim>\<open>ErrShape\<close> when the operands do not fit each other or a non-empty receiver
  does not fit the result. Only the shape of the receiver matters: its old elements are
  overwritten.
\<close>

definition nrows :: "real list list \<Rightarrow> nat" where
  "nrows a = length a"

definition ncols :: "real list list \<Rightarrow> nat" where
  "ncols a = (case a of [] \<Rightarrow> 0 | r # _ \<Rightarrow> length r)"

definition NewVecDense :: "int \<Rightarrow> real list option \<Rightarrow> error + real list" where
  "NewVecDense n data =
     (if n \<le> 0 then (if n = 0 then Inl ErrZeroLength else Inl ErrNegativeDimension)
      else case data of
             None \<Rightarrow> Inr (replicate (nat n) 0)
           | Some d \<Rightarrow> if int (length d) \<noteq> n then Inl ErrShape else Inr d)"

definition NewDense :: "int \<Rightarrow> int \<Rightarrow> error + real list list" where
  "NewDense r c =
     (if r \<le> 0 \<or> c \<le> 0
      then (if r = 0 \<or> c = 0 then Inl ErrZeroLength else Inl ErrNegativeDimension)
      else Inr (replicate (nat r) (replicate (nat c) 0)))"

definition dot :: "real list \<Rightarrow> real list \<Rightarrow> real" where
  "dot xs ys = sum_list (map2 (*) xs ys)"

definition T :: "real list list \<Rightarrow> real list list" where
  "T a = map (\<lambda>j. map (\<lambda>row. row ! j) a) [0..<ncols a]"

definition MulVec :: "real list \<Rightarrow> real list list \<Rightarrow> real list \<Rightarrow> error + real list" where
  "MulVec recv a x =
     (if ncols a \<noteq> length x then Inl ErrShape
      else if length recv \<noteq> nrows a then Inl ErrShape
      else Inr (map (\<lambda>row. dot row x) a))"

definition AddVec :: "real list \<Rightarrow> real list \<Rightarrow> real list \<Rightarrow> error + real list" where
  "AddVec recv a b =
     (if length a \<noteq> length b then Inl ErrShape
      else if length recv \<noteq> length a then Inl ErrShape
      else Inr (map2 (+) a b))"

definition SubVec :: "real list \<Rightarrow> real list \<Rightarrow> real list \<Rightarrow> error + real list" where
  "SubVec recv a b =
     (if length a \<noteq> length b then Inl ErrShape
      else if length recv \<noteq> length a then Inl ErrShape
      else Inr (map2 (-) a b))"

definition MulElemVec :: "real list \<Rightarrow> real list \<Rightarrow> real list \<Rightarrow> error + real list" where
  "MulElemVec recv a b =
     (if length a \<noteq> length b then Inl ErrShape
      else if length recv \<noteq> length a then Inl ErrShape
      else Inr (map2 (*) a b))"

definition AddScaledVec :: "real list \<Rightarrow> real list \<Rightarrow> real \<Rightarrow> real list \<Rightarrow> error + real list" where
  "AddScaledVec recv a alpha b =
     (if length a \<noteq> length b then Inl ErrShape
      else if length recv \<noteq> length a then Inl ErrShape
      else Inr (map2 (\<lambda>u v. u + alpha * v) a b))"

definition Outer :: "real list list \<Rightarrow> real \<Rightarrow> real list \<Rightarrow> real list \<Rightarrow> error + real list list" where
  "Outer recv alpha x y =
     (if nrows recv \<noteq> length x \<or> ncols recv \<noteq> length y then Inl ErrShape
      else Inr (map (\<lambda>xi. map (\<lambda>yj. alpha * xi * yj) y) x))"

text \<open>\<^verbatim>\<open>m.Scale(f, a)\<close> stores \<open>f \<cdot> a\<close> in \<open>m\<close>; \<^verbatim>\<open>m.Add(a, b)\<close> stores \<open>a + b\<close> in \<open>m\<close>.\<close>

definition Scale :: "real list list \<Rightarrow> real \<Rightarrow> real list list \<Rightarrow> error + real list list" where
  "Scale recv f a =
     (if nrows recv \<noteq> nrows a \<or> ncols recv \<noteq> ncols a then Inl ErrShape
      else Inr (map (map ((*) f)) a))"

definition Add_mat :: "real list list \<Rightarrow> real list list \<Rightarrow> real list list \<Rightarrow> error + real list list" where
  "Add_mat recv a b =
     (if nrows a \<noteq> nrows b \<or> ncols a \<noteq> ncols b then Inl ErrShape
      else if nrows recv \<noteq> nrows a \<or> ncols recv \<noteq> ncols a then Inl ErrShape
      else Inr (map2 (map2 (+)) a b))"

section \<open>qnetwork.go\<close>

type_synonym Activation = "real \<Rightarrow> real"

record QNetwork =
  inputSize :: int
  hiddenSize :: int
  outputSize :: int
  w1 :: "real list list"
  b1 :: "real list"
  w2 :: "real list list"
  b2 :: "real list"
  activation :: Activation

text \<open>
  \<^verbatim>\<open>NewQNetwork\<close>: the four allocations, which panic on a dimension that is not
  positive, then the random initialisation. \<open>rnd k\<close> is the value of the \<open>k\<close>-th call
  of \<^verbatim>\<open>rand.Float64()\<close>; \<^verbatim>\<open>Apply\<close> visits a matrix row by row.
\<close>

definition Apply_rand :: "nat \<Rightarrow> nat \<Rightarrow> nat \<Rightarrow> (nat \<Rightarrow> real) \<Rightarrow> real \<Rightarrow> real list list" where
  "Apply_rand r c k rnd bound =
     map (\<lambda>i. map (\<lambda>j. rnd (k + i * c + j) * 2 * bound - bound) [0..<c]) [0..<r]"

definition SetVec_rand :: "nat \<Rightarrow> nat \<Rightarrow> (nat \<Rightarrow> real) \<Rightarrow> real \<Rightarrow> real list" where
  "SetVec_rand n k rnd bound = map (\<lambda>i. rnd (k + i) * 2 * bound - bound) [0..<n]"

definition NewQNetwork ::
  "int \<Rightarrow> int \<Rightarrow> int \<Rightarrow> Activation \<Rightarrow> (nat \<Rightarrow> real) \<Rightarrow> error + QNetwork" where
  "NewQNetwork inSize hidSize outSize act rnd =
     bindE (NewDense hidSize inSize) (\<lambda>w1_0.
     bindE (NewVecDense hidSize None) (\<lambda>b1_0.
     bindE (NewDense outSize hidSize) (\<lambda>w2_0.
     bindE (NewVecDense outSize None) (\<lambda>b2_0.
     let bound1 = sqrt (6 / real_of_int (inSize + hidSize));
         bound2 = sqrt (6 / real_of_int (hidSize + outSize));
         n = nat inSize; h = nat hidSize; m = nat outSize
     in Inr \<lparr>inputSize = inSize, hiddenSize = hidSize, outputSize = outSize,
             w1 = Apply_rand h n 0 rnd bound1,
             b1 = SetVec_rand h (h * n) rnd bound1,
             w2 = Apply_rand m h (h * n + h) rnd bound2,
             b2 = SetVec_rand m (h * n + h + m * h) rnd bound2,
             activation = act\<rparr>))))"

definition ReLU :: Activation where
  "ReLU x = (if x > 0 then x else 0)"

definition Sigmoid :: Activation where
  "Sigmoid x = 1 / (1 + exp (- x))"

definition Tanh :: Activation where
  "Tanh x = tanh x"

definition Predict :: "QNetwork \<Rightarrow> real list \<Rightarrow> error + real list" where
  "Predict q state =
     (if int (length state) \<noteq> inputSize q then Inl InputSizeMismatch
      else
        bindE (NewVecDense (int (length state)) (Some state)) (\<lambda>x.
        bindE (NewVecDense (hiddenSize q) None) (\<lambda>h0.
        bindE (MulVec h0 (w1 q) x) (\<lambda>h1.
        bindE (AddVec h1 h1 (b1 q)) (\<lambda>h2.
        let h = map (activation q) h2 in
        bindE (NewVecDense (outputSize q) None) (\<lambda>out0.
        bindE (MulVec out0 (w2 q) h) (\<lambda>out1.
        bindE (AddVec out1 out1 (b2 q)) (\<lambda>out2.
          Inr out2))))))))"

text \<open>
  \<^verbatim>\<open>Loss\<close>: the sum of the squared differences, divided by the length with no test of
  the divisor.
\<close>

definition Loss :: "QNetwork \<Rightarrow> real list \<Rightarrow> real list \<Rightarrow> error + f64" where
  "Loss q predictions targets =
     (if length predictions \<noteq> length targets then Inl LengthMismatch
      else
        let loss = foldl (\<lambda>loss i. let diff = predictions ! i - targets ! i in loss + diff * diff)
                     0 [0..<length predictions]
        in Inr (fdiv loss (real (length predictions))))"

text \<open>The step \<^verbatim>\<open>h := 1e-4\<close> of \<^verbatim>\<open>applyDerivative\<close>.\<close>

definition applyDerivative :: "real list \<Rightarrow> Activation \<Rightarrow> error + real list" where
  "applyDerivative v act =
     bindE (NewVecDense (int (length v)) None) (\<lambda>result.
       Inr (map (\<lambda>x. let h = 1 / 10000 in (act (x + h) - act (x - h)) / (2 * h)) v))"

text \<open>
  \<^verbatim>\<open>Backward\<close>, in the two parts its comments name. \<open>Backward_gradients\<close> is the forward
  pass and the gradients, returned as \<open>(dW2, dB2, dW1, dB1)\<close>; \<^verbatim>\<open>dB2\<close> is the same
  vector as \<^verbatim>\<open>dOut\<close> and \<^verbatim>\<open>dB1\<close> the same as \<^verbatim>\<open>dH\<close>. The vector \<open>h\<close> handed to
  \<^verbatim>\<open>applyDerivative\<close> is the one the activation loop has overwritten.
\<close>

definition Backward_gradients ::
  "QNetwork \<Rightarrow> real list \<Rightarrow> real list \<Rightarrow> real list \<Rightarrow>
     error + (real list list \<times> real list \<times> real list list \<times> real list)" where
  "Backward_gradients q state prediction target =
     bindE (NewVecDense (int (length state)) (Some state)) (\<lambda>x.
     bindE (NewVecDense (int (length target)) (Some target)) (\<lambda>y.
     bindE (NewVecDense (int (length prediction)) (Some prediction)) (\<lambda>yHat.
     bindE (NewVecDense (hiddenSize q) None) (\<lambda>h0.
     bindE (MulVec h0 (w1 q) x) (\<lambda>h1.
     bindE (AddVec h1 h1 (b1 q)) (\<lambda>h2.
     let h = map (activation q) h2 in
     bindE (NewVecDense (outputSize q) None) (\<lambda>dOut0.
     bindE (SubVec dOut0 yHat y) (\<lambda>dOut.
     bindE (NewDense (outputSize q) (hiddenSize q)) (\<lambda>dW2_0.
     bindE (Outer dW2_0 1 dOut h) (\<lambda>dW2.
     let dB2 = dOut in
     bindE (NewVecDense (hiddenSize q) None) (\<lambda>dH0.
     bindE (MulVec dH0 (T (w2 q)) dOut) (\<lambda>dH1.
     bindE (applyDerivative h (activation q)) (\<lambda>d.
     bindE (MulElemVec dH1 dH1 d) (\<lambda>dH.
     bindE (NewDense (hiddenSize q) (inputSize q)) (\<lambda>dW1_0.
     bindE (Outer dW1_0 1 dH x) (\<lambda>dW1.
     let dB1 = dH in
       Inr (dW2, dB2, dW1, dB1)))))))))))))))))"

text \<open>The second part: the six statements under \<^verbatim>\<open>// Update weights and biases\<close>.\<close>

definition Backward :: "QNetwork \<Rightarrow> real list \<Rightarrow> real list \<Rightarrow> real list \<Rightarrow> real \<Rightarrow> error + QNetwork" where
  "Backward q state prediction target lr =
     bindE (Backward_gradients q state prediction target) (\<lambda>(dW2, dB2, dW1, dB1).
     bindE (Scale (w2 q) (- lr) dW2) (\<lambda>w2a.
     bindE (Add_mat w2a w2a dW2) (\<lambda>w2b.
     bindE (AddScaledVec (b2 q) (b2 q) (- lr) dB2) (\<lambda>b2b.
     bindE (Scale (w1 q) (- lr) dW1) (\<lambda>w1a.
     bindE (Add_mat w1a w1a dW1) (\<lambda>w1b.
     bindE (AddScaledVec (b1 q) (b1 q) (- lr) dB1) (\<lambda>b1b.
       Inr (q\<lparr>w1 := w1b, b1 := b1b, w2 := w2b, b2 := b2b\<rparr>))))))))"

section \<open>train.go\<close>

record DQN =
  qNetwork :: QNetwork
  replayBuffer :: ReplayBuffer
  gamma :: real
  epsilon :: real
  learningRate :: real

fun Max_loop :: "real \<Rightarrow> real list \<Rightarrow> real" where
  "Max_loop maxVal [] = maxVal"
| "Max_loop maxVal (val # rest) =
     (if val > maxVal then Max_loop val rest else Max_loop maxVal rest)"

definition Max_go :: "real list \<Rightarrow> error + real" where
  "Max_go arr = (case arr of [] \<Rightarrow> Inl IndexOutOfRange | a0 # _ \<Rightarrow> Inr (Max_loop a0 arr))"

text \<open>\<open>Argmax_loop i rest (maxIdx, maxVal)\<close>: the loop at index \<open>i\<close>, with \<open>rest\<close> still to scan.\<close>

fun Argmax_loop :: "nat \<Rightarrow> real list \<Rightarrow> nat \<times> real \<Rightarrow> nat \<times> real" where
  "Argmax_loop i [] (maxIdx, maxVal) = (maxIdx, maxVal)"
| "Argmax_loop i (val # rest) (maxIdx, maxVal) =
     (if val > maxVal then Argmax_loop (Suc i) rest (i, val)
      else Argmax_loop (Suc i) rest (maxIdx, maxVal))"

definition Argmax :: "real list \<Rightarrow> error + int" where
  "Argmax arr =
     (case arr of
        [] \<Rightarrow> Inl IndexOutOfRange
      | a0 # _ \<Rightarrow> Inr (int (fst (Argmax_loop 0 arr (0, a0)))))"

text \<open>
  The conversion \<^verbatim>\<open>float64(reward)\<close> of a Go \<^verbatim>\<open>int\<close>: a \<^verbatim>\<open>float64\<close> has 53
  significant bits, so an integer of magnitude \<open>m\<close> is kept as it is only when it is a
  multiple of the spacing \<open>u\<close> of the floats around it, the least power of two with
  \<open>m < 2\<^sup>5\<^sup>3 \<cdot> u\<close>; otherwise it is rounded to the nearest multiple of \<open>u\<close>, a tie going
  to the even one.
\<close>

function ulp_loop :: "nat \<Rightarrow> nat \<Rightarrow> nat" where
  "ulp_loop m u = (if u = 0 \<or> m < 2 ^ 53 * u then u else ulp_loop m (2 * u))"
  by pat_completeness auto
termination
  by (relation "measure (\<lambda>(m, u). m + 1 - 2 ^ 53 * u)") auto

declare ulp_loop.simps [simp del]

definition float64_of_int :: "int \<Rightarrow> real" where
  "float64_of_int n =
     (let m = nat \<bar>n\<bar>;
          u = ulp_loop m 1;
          q = m div u;
          r = m mod u;
          k = (if 2 * r < u \<or> (2 * r = u \<and> even q) then q else q + 1)
      in if n < 0 then - real (k * u) else real (k * u))"

text \<open>The indexed store \<^verbatim>\<open>a[i] = v\<close>: a run-time panic when \<open>i\<close> is out of range.\<close>

definition store_at :: "real list \<Rightarrow> int \<Rightarrow> real \<Rightarrow> error + real list" where
  "store_at a i v =
     (if 0 \<le> i \<and> i < int (length a) then Inr (a[nat i := v]) else Inl IndexOutOfRange)"

text \<open>
  \<^verbatim>\<open>Train\<close>, in two parts: \<open>Train_target\<close> is the code up to the construction of
  \<^verbatim>\<open>target\<close>, \<open>Train\<close> hands it to \<^verbatim>\<open>Backward\<close>. The network is updated through a
  pointer; the model returns the agent with the new network.
\<close>

definition Train_target :: "DQN \<Rightarrow> real list \<Rightarrow> int \<Rightarrow> int \<Rightarrow> bool \<Rightarrow> error + real list" where
  "Train_target d nextState action reward done =
     bindE (Predict (qNetwork d) nextState) (\<lambda>nextQValues.
     bindE (Max_go nextQValues) (\<lambda>maxNextQValue.
     let target = nextQValues in
     bindE (store_at target action (float64_of_int reward)) (\<lambda>target1.
       if \<not> done
       then store_at target1 action (target1 ! nat action + gamma d * maxNextQValue)
       else Inr target1)))"

definition Train :: "DQN \<Rightarrow> real list \<Rightarrow> real list \<Rightarrow> int \<Rightarrow> int \<Rightarrow> bool \<Rightarrow> error + DQN" where
  "Train d state nextState action reward done =
     bindE (Train_target d nextState action reward done) (\<lambda>target.
     bindE (Predict (qNetwork d) state) (\<lambda>currentQValues.
     bindE (Backward (qNetwork d) state currentQValues target (learningRate d)) (\<lambda>q'.
       Inr (d\<lparr>qNetwork := q'\<rparr>))))"

text \<open>
  \<^verbatim>\<open>EpsilonGreedyPolicy\<close>: \<open>u\<close> is the value of \<^verbatim>\<open>rand.Float64()\<close>, which lies in
  \<open>[0, 1)\<close>, and \<open>s\<close> the generator's raw output behind \<^verbatim>\<open>rand.Intn\<close>.
\<close>

definition EpsilonGreedyPolicy :: "DQN \<Rightarrow> real list \<Rightarrow> int \<Rightarrow> real \<Rightarrow> nat \<Rightarrow> error + int" where
  "EpsilonGreedyPolicy d state numActions u s =
     (if u < epsilon d then Intn numActions s
      else bindE (Predict (qNetwork d) state) (\<lambda>qValues. Argmax qValues))"

section \<open>Networks as the constructor builds them\<close>

text \<open>
  The shapes \<^verbatim>\<open>NewQNetwork\<close> establishes: \<open>w1\<close> is \<open>hiddenSize \<times> inputSize\<close>, \<open>b1\<close> has
  length \<open>hiddenSize\<close>, \<open>w2\<close> is \<open>outputSize \<times> hiddenSize\<close>, \<open>b2\<close> has length
  \<open>outputSize\<close>, and the three sizes are positive.
\<close>

definition is_dense :: "nat \<Rightarrow> nat \<Rightarrow> real list list \<Rightarrow> bool" where
  "is_dense r c a = (length a = r \<and> list_all (\<lambda>row. length row = c) a)"

definition wf_net :: "QNetwork \<Rightarrow> bool" where
  "wf_net q =
     (0 < inputSize q \<and> 0 < hiddenSize q \<and> 0 < outputSize q \<and>
      is_dense (nat (hiddenSize q)) (nat (inputSize q)) (w1 q) \<and>
      length (b1 q) = nat (hiddenSize q) \<and>
      is_dense (nat (outputSize q)) (nat (hiddenSize q)) (w2 q) \<and>
      length (b2 q) = nat (outputSize q))"

text \<open>An outcome of the policy that is an index of the range \<open>[0, numActions)\<close>.\<close>

definition in_action_range :: "int \<Rightarrow> error + int \<Rightarrow> bool" where
  "in_action_range numActions r =
     (case r of Inl e \<Rightarrow> False | Inr a \<Rightarrow> 0 \<le> a \<and> a < numActions)"

section \<open>The backward pass as the specification words it\<close>

text \<open>
  The hidden error of the specification: \<open>W2\<^sup>T \<cdot> (predicted - target)\<close>, multiplied
  element-wise by the finite-difference derivative of the activation at the
  pre-activation values \<open>W1 \<cdot> state + b1\<close>. It is written from the specification's
  sentence, to be compared with the \<open>dB1\<close> that \<open>Backward_gradients\<close> computes.
\<close>

definition spec_hidden_error :: "QNetwork \<Rightarrow> real list \<Rightarrow> real list \<Rightarrow> real list \<Rightarrow> real list" where
  "spec_hidden_error q state predicted target =
     (let preActivation = map2 (+) (map (\<lambda>row. dot row state) (w1 q)) (b1 q);
          dOut = map2 (-) predicted target;
          back = map (\<lambda>col. dot col dOut) (T (w2 q));
          h = 1 / 10000
      in map2 (*) back
           (map (\<lambda>x. (activation q (x + h) - activation q (x - h)) / (2 * h)) preActivation))"

section \<open>Concrete inputs\<close>

definition net_a :: QNetwork where
  "net_a = \<lparr>inputSize = 1, hiddenSize = 1, outputSize = 1,
            w1 = [[1]], b1 = [0], w2 = [[2]], b2 = [0], activation = ReLU\<rparr>"

definition net_b :: QNetwork where
  "net_b = \<lparr>inputSize = 1, hiddenSize = 1, outputSize = 1,
            w1 = [[1]], b1 = [0], w2 = [[1]], b2 = [0], activation = ReLU\<rparr>"

definition net_tie :: QNetwork where
  "net_tie = \<lparr>inputSize = 1, hiddenSize = 1, outputSize = 3,
              w1 = [[1]], b1 = [0], w2 = [[1], [1], [0]], b2 = [0, 0, 0], activation = ReLU\<rparr>"

definition net_last :: QNetwork where
  "net_last = \<lparr>inputSize = 1, hiddenSize = 1, outputSize = 3,
               w1 = [[1]], b1 = [0], w2 = [[0], [0], [1]], b2 = [0, 0, 0], activation = ReLU\<rparr>"

definition dqn_tie :: DQN where
  "dqn_tie = \<lparr>qNetwork = net_tie, replayBuffer = NewReplayBuffer 2,
              gamma = 9 / 10, epsilon = 0, learningRate = 1 / 1000\<rparr>"

definition dqn_last :: DQN where
  "dqn_last = \<lparr>qNetwork = net_last, replayBuffer = NewReplayBuffer 2,
               gamma = 9 / 10, epsilon = 0, learningRate = 1 / 1000\<rparr>"

definition dqn_explore :: DQN where
  "dqn_explore = \<lparr>qNetwork = net_tie, replayBuffer = NewReplayBuffer 2,
                  gamma = 9 / 10, epsilon = 1 / 2, learningRate = 1 / 1000\<rparr>"

definition expA :: Experience where
  "expA = \<lparr>State = [1], NextState = [2], Action = 1, Reward = 1, Done = False\<rparr>"

definition expB :: Experience where
  "expB = \<lparr>State = [2], NextState = [3], Action = 0, Reward = 2, Done = False\<rparr>"

definition expC :: Experience where
  "expC = \<lparr>State = [3], NextState = [4], Action = 1, Reward = 3, Done = True\<rparr>"

definition rb_AB :: ReplayBuffer where
  "rb_AB = \<lparr>buffer = [expA, expB], size_rb = 2\<rparr>"

section \<open>Basic facts\<close>

lemma bindE_Inr [simp]: "bindE (Inr x) f = f x"
  by (simp add: bindE_def)

lemma bindE_Inl [simp]: "bindE (Inl e) f = Inl e"
  by (simp add: bindE_def)

lemmas gonum_defs =
  NewVecDense_def NewDense_def MulVec_def AddVec_def SubVec_def MulElemVec_def
  AddScaledVec_def Outer_def Scale_def Add_mat_def T_def dot_def nrows_def ncols_def
  applyDerivative_def

section \<open>The replay buffer\<close>

lemma Add_below:
  "int (length (buffer rb)) < size_rb rb \<Longrightarrow> Add rb e = Inr (rb\<lparr>buffer := buffer rb @ [e]\<rparr>)"
  by (simp add: Add_def)

lemma Add_full:
  "size_rb rb \<le> int (length (buffer rb)) \<Longrightarrow> buffer rb \<noteq> [] \<Longrightarrow>
   Add rb e = Inr (rb\<lparr>buffer := tl (buffer rb) @ [e]\<rparr>)"
  by (cases "buffer rb") (simp_all add: Add_def slice_from1_def)

text \<open>
  After any run of \<^verbatim>\<open>Add\<close> calls on a buffer within its capacity, the buffer holds
  the last \<open>size_rb\<close> entries of what was there followed by what was added.
\<close>

lemma AddAll_window:
  "1 \<le> size_rb rb \<Longrightarrow> int (length (buffer rb)) \<le> size_rb rb \<Longrightarrow>
   AddAll rb es =
     Inr (rb\<lparr>buffer := drop (length (buffer rb @ es) - nat (size_rb rb)) (buffer rb @ es)\<rparr>)"
proof (induction es arbitrary: rb)
  case Nil
  then show ?case by simp
next
  case (Cons e es)
  show ?case
  proof (cases "int (length (buffer rb)) < size_rb rb")
    case True
    let ?rb = "rb\<lparr>buffer := buffer rb @ [e]\<rparr>"
    have "AddAll rb (e # es) = AddAll ?rb es"
      using True by (simp add: Add_below)
    also have "\<dots> = Inr (?rb\<lparr>buffer := drop (length (buffer ?rb @ es) - nat (size_rb ?rb)) (buffer ?rb @ es)\<rparr>)"
      using True Cons.prems by (intro Cons.IH) simp_all
    finally show ?thesis by simp
  next
    case False
    with Cons.prems have full: "int (length (buffer rb)) = size_rb rb" by simp
    with Cons.prems obtain x t where xt: "buffer rb = x # t"
      by (cases "buffer rb") auto
    let ?rb = "rb\<lparr>buffer := t @ [e]\<rparr>"
    have "AddAll rb (e # es) = AddAll ?rb es"
      using full xt by (simp add: Add_full)
    also have "\<dots> = Inr (?rb\<lparr>buffer := drop (length (buffer ?rb @ es) - nat (size_rb ?rb)) (buffer ?rb @ es)\<rparr>)"
      using full xt Cons.prems by (intro Cons.IH) simp_all
    finally show ?thesis using full xt by (simp add: Suc_diff_le)
  qed
qed

lemma Sample_loop_nonempty:
  "buf \<noteq> [] \<Longrightarrow> \<exists>s. Sample_loop buf draws i k = Inr s \<and> length s = k \<and> set s \<subseteq> set buf"
proof (induction k arbitrary: i)
  case 0
  then show ?case by simp
next
  case (Suc k)
  from Suc.IH [OF Suc.prems, of "Suc i"] obtain s where
    s: "Sample_loop buf draws (Suc i) k = Inr s" "length s = k" "set s \<subseteq> set buf" by blast
  have pos: "0 < int (length buf)" using Suc.prems by simp
  have "nat (int (draws i) mod int (length buf)) < length buf"
    using pos by (simp add: nat_less_iff)
  then show ?case using s pos by (simp add: Intn_def)
qed

text \<open>
  C6. With a capacity \<open>C \<ge> 1\<close>, every run of \<^verbatim>\<open>Add\<close> calls on a new buffer succeeds and
  leaves at most \<open>C\<close> entries: the last \<open>C\<close> of the entries added, in the order they were
  added. An \<^verbatim>\<open>Add\<close> on a buffer that holds exactly \<open>C\<close> entries drops the oldest one
  and appends the new one behind the others. With capacity 2, adding \<open>A\<close>, \<open>B\<close>, \<open>D\<close>
  leaves \<open>[B, D]\<close>.
\<close>

theorem ReplayBuffer_fifo:
  assumes "1 \<le> C"
  shows "(\<exists>rb'. AddAll (NewReplayBuffer C) es = Inr rb' \<and> int (length (buffer rb')) \<le> C \<and>
            buffer rb' = drop (length es - nat C) es) \<and>
         (size_rb rb = C \<and> int (length (buffer rb)) = C \<longrightarrow>
            Add rb e = Inr (rb\<lparr>buffer := tl (buffer rb) @ [e]\<rparr>)) \<and>
         AddAll (NewReplayBuffer 2) [A, B, D] = Inr \<lparr>buffer = [B, D], size_rb = 2\<rparr>"
proof (intro conjI impI)
  have "AddAll (NewReplayBuffer C) es =
          Inr ((NewReplayBuffer C)\<lparr>buffer := drop (length es - nat C) es\<rparr>)"
    using assms AddAll_window [of "NewReplayBuffer C" es] by (simp add: NewReplayBuffer_def)
  moreover have "int (length (drop (length es - nat C) es)) \<le> C"
    using assms by simp
  ultimately show "\<exists>rb'. AddAll (NewReplayBuffer C) es = Inr rb' \<and>
      int (length (buffer rb')) \<le> C \<and> buffer rb' = drop (length es - nat C) es"
    by simp
next
  assume "size_rb rb = C \<and> int (length (buffer rb)) = C"
  with assms show "Add rb e = Inr (rb\<lparr>buffer := tl (buffer rb) @ [e]\<rparr>)"
    by (intro Add_full) auto
next
  show "AddAll (NewReplayBuffer 2) [A, B, D] = Inr \<lparr>buffer = [B, D], size_rb = 2\<rparr>"
    by (simp add: NewReplayBuffer_def Add_def slice_from1_def)
qed

theorem ReplayBuffer_fifo_witness:
  "(1::int) \<le> 2 \<and>
   AddAll (NewReplayBuffer 2) [expA, expB, expC] = Inr \<lparr>buffer = [expB, expC], size_rb = 2\<rparr> \<and>
   size_rb rb_AB = 2 \<and> int (length (buffer rb_AB)) = 2 \<and>
   Add rb_AB expC = Inr \<lparr>buffer = [expB, expC], size_rb = 2\<rparr>"
  using ReplayBuffer_fifo [of 2 "[expA, expB, expC]" rb_AB expC expA expB expC]
  by (simp add: rb_AB_def)

text \<open>
  C7, as the code has it. On a new buffer of capacity 0 the first \<^verbatim>\<open>Add\<close> takes the
  eviction branch with nothing to evict: \<^verbatim>\<open>rb.buffer[1:]\<close> panics on the empty slice,
  and so does every run of \<^verbatim>\<open>Add\<close> calls at its first call.
\<close>

theorem Add_capacity_zero_panics:
  "Add (NewReplayBuffer 0) e = Inl SliceBoundsOutOfRange \<and>
   AddAll (NewReplayBuffer 0) (e # es) = Inl SliceBoundsOutOfRange"
  by (simp add: Add_def NewReplayBuffer_def slice_from1_def)

text \<open>C7 as stated fails for the first entry added to a new buffer of capacity 0.\<close>

theorem Add_capacity_zero_counterexample:
  "Add (NewReplayBuffer 0) expA = Inl SliceBoundsOutOfRange"
  by (simp add: Add_def NewReplayBuffer_def slice_from1_def)

text \<open>
  C8, as the code has it. On an empty store \<^verbatim>\<open>Sample(k)\<close> panics for every \<open>k \<ge> 1\<close>,
  inside \<^verbatim>\<open>rand.Intn(0)\<close>, and returns the empty batch for \<open>k = 0\<close>, where the loop
  body never runs. On a non-empty store it succeeds for every \<open>k \<ge> 0\<close>, also beyond the
  number of stored entries, and returns \<open>k\<close> entries of the store.
\<close>

theorem Sample_contract:
  "(buffer rb = [] \<and> 1 \<le> k \<longrightarrow> Sample rb k draws = Inl IntnInvalidArgument) \<and>
   (buffer rb = [] \<longrightarrow> Sample rb 0 draws = Inr []) \<and>
   (buffer rb \<noteq> [] \<and> 0 \<le> k \<longrightarrow>
      (\<exists>s. Sample rb k draws = Inr s \<and> int (length s) = k \<and> set s \<subseteq> set (buffer rb)))"
proof (intro conjI impI)
  assume a: "buffer rb = [] \<and> 1 \<le> k"
  then obtain n where "nat k = Suc n" by (cases "nat k") auto
  with a show "Sample rb k draws = Inl IntnInvalidArgument"
    by (simp add: Sample_def Intn_def)
next
  show "Sample rb 0 draws = Inr []"
    by (simp add: Sample_def)
next
  assume a: "buffer rb \<noteq> [] \<and> 0 \<le> k"
  with Sample_loop_nonempty [of "buffer rb" draws 0 "nat k"]
  show "\<exists>s. Sample rb k draws = Inr s \<and> int (length s) = k \<and> set s \<subseteq> set (buffer rb)"
    by (auto simp: Sample_def)
qed

theorem Sample_contract_witness:
  "buffer (NewReplayBuffer 2) = [] \<and> (1::int) \<le> 1 \<and>
   Sample (NewReplayBuffer 2) 1 zero_draws = Inl IntnInvalidArgument \<and>
   Sample (NewReplayBuffer 2) 0 zero_draws = Inr [] \<and>
   buffer rb_AB \<noteq> [] \<and> (0::int) \<le> 3 \<and>
   (\<exists>s. Sample rb_AB 3 zero_draws = Inr s \<and> int (length s) = 3 \<and> set s \<subseteq> set (buffer rb_AB))"
  using Sample_contract [of "NewReplayBuffer 2" 1 zero_draws]
    Sample_contract [of rb_AB 3 zero_draws]
  by (simp add: NewReplayBuffer_def rb_AB_def)

text \<open>C8 as stated fails for \<open>k = 0\<close> on an empty store: the call returns the empty batch.\<close>

theorem Sample_empty_store_counterexample:
  "Sample (NewReplayBuffer 2) 0 zero_draws = Inr []"
  by (simp add: Sample_def)

section \<open>Normalize and Loss\<close>

lemma Normalize_max_fold: "Normalize_max m xs = fold max xs m"
  by (induction xs arbitrary: m) (simp_all add: max_def)

lemma Normalize_max_Max: "Normalize_max m xs = Max (set (m # xs))"
  by (simp only: Normalize_max_fold Max.set_eq_fold)

text \<open>
  C9, as the code has it. When the vector has a positive component, \<^verbatim>\<open>Normalize\<close>
  divides every component by the maximum of the vector. When the maximum is zero, every
  component is divided by zero all the same: a zero component becomes \<open>NaN\<close> and a
  negative one \<open>-Inf\<close>; the vector is not left as it was.
\<close>

theorem Normalize_divides:
  "(state \<noteq> [] \<and> 0 < Max (set state) \<longrightarrow>
      Normalize state = map (\<lambda>v. Finite (v / Max (set state))) state) \<and>
   (state \<noteq> [] \<and> Max (set state) = 0 \<longrightarrow>
      Normalize state = map (\<lambda>v. if v = 0 then NaN else NegInf) state)"
proof (intro conjI impI)
  assume a: "state \<noteq> [] \<and> 0 < Max (set state)"
  then have "Normalize_max 0 state = Max (set state)"
    by (simp add: Normalize_max_Max max_def)
  with a show "Normalize state = map (\<lambda>v. Finite (v / Max (set state))) state"
    by (simp add: Normalize_def fdiv_def)
next
  assume a: "state \<noteq> [] \<and> Max (set state) = 0"
  then have m: "Normalize_max 0 state = 0"
    by (simp add: Normalize_max_Max)
  have "\<forall>v\<in>set state. v \<le> 0"
    using a Max_ge [of "set state"] by auto
  then have "\<forall>v\<in>set state. fdiv v 0 = (if v = 0 then NaN else NegInf)"
    by (auto simp: fdiv_def)
  then show "Normalize state = map (\<lambda>v. if v = 0 then NaN else NegInf) state"
    by (simp add: Normalize_def m)
qed

theorem Normalize_divides_witness:
  "[1, 2, 4] \<noteq> ([]::real list) \<and> (0::real) < Max (set [1, 2, 4]) \<and>
   Normalize [1, 2, 4] = [Finite (1 / 4), Finite (1 / 2), Finite 1] \<and>
   [0, - 1] \<noteq> ([]::real list) \<and> Max (set [0, - 1 :: real]) = 0 \<and>
   Normalize [0, - 1] = [NaN, NegInf]"
  using Normalize_divides [of "[1, 2, 4]"] Normalize_divides [of "[0, - 1]"]
  by simp

text \<open>C9 as stated fails on \<open>[0, -1]\<close>, whose maximum is zero: the result is not the input.\<close>

theorem Normalize_zero_max_counterexample:
  "Normalize [0, - 1] \<noteq> map Finite [0, - 1]"
  by (simp add: Normalize_def fdiv_def)

text \<open>
  C10. On two empty sequences \<^verbatim>\<open>Loss\<close> passes the length check and does not panic: it
  returns the quotient of the empty sum by the length 0, a division by zero whose value
  is \<open>NaN\<close>.
\<close>

theorem Loss_empty_divides_by_zero:
  "Loss q [] [] = Inr (fdiv 0 0) \<and> fdiv 0 0 = NaN"
  by (simp add: Loss_def fdiv_def)

section \<open>Shapes\<close>

lemma ncols_dense: "is_dense r c a \<Longrightarrow> 0 < r \<Longrightarrow> ncols a = c"
  by (cases a) (simp_all add: is_dense_def ncols_def)

lemma nrows_dense: "is_dense r c a \<Longrightarrow> nrows a = r"
  by (simp add: is_dense_def nrows_def)

lemma NewVecDense_Some: "v \<noteq> [] \<Longrightarrow> NewVecDense (int (length v)) (Some v) = Inr v"
  by (simp add: NewVecDense_def)

lemma NewVecDense_None:
  "v \<noteq> [] \<Longrightarrow> NewVecDense (int (length v)) None = Inr (replicate (length v) 0)"
  by (simp add: NewVecDense_def)

lemma NewDense_pos:
  "u \<noteq> [] \<Longrightarrow> v \<noteq> [] \<Longrightarrow>
   NewDense (int (length u)) (int (length v)) = Inr (replicate (length u) (replicate (length v) 0))"
  by (simp add: NewDense_def)

lemma nrows_replicate [simp]: "nrows (replicate r row) = r"
  by (simp add: nrows_def)

lemma ncols_replicate [simp]: "0 < r \<Longrightarrow> ncols (replicate r row) = length row"
  by (cases r) (simp_all add: ncols_def)

lemma nrows_T [simp]: "nrows (T a) = ncols a"
  by (simp add: T_def nrows_def)

lemma ncols_T: "0 < ncols a \<Longrightarrow> ncols (T a) = nrows a"
  by (simp add: T_def ncols_def nrows_def upt_conv_Cons split: list.splits)

lemma ncols_map_map [simp]: "ncols (map (map f) a) = ncols a"
  by (cases a) (simp_all add: ncols_def)

text \<open>The constructor succeeds exactly on positive sizes, and its networks are well formed.\<close>

lemma NewQNetwork_wf:
  assumes "NewQNetwork n h m act rnd = Inr q"
  shows "wf_net q"
proof -
  have pos: "0 < n \<and> 0 < h \<and> 0 < m"
    using assms by (auto simp: NewQNetwork_def NewDense_def NewVecDense_def split: if_splits)
  then show ?thesis
    using assms
    by (auto simp: NewQNetwork_def NewDense_def NewVecDense_def wf_net_def is_dense_def
        Apply_rand_def SetVec_rand_def list_all_iff Let_def)
qed

lemma NewQNetwork_succeeds:
  assumes "0 < n" "0 < h" "0 < m"
  shows "\<exists>q. NewQNetwork n h m act rnd = Inr q"
  using assms by (simp add: NewQNetwork_def NewDense_def NewVecDense_def Let_def)

section \<open>Predict\<close>

lemma Predict_wf:
  assumes "wf_net q" "int (length state) = inputSize q"
  shows "\<exists>out. Predict q state = Inr out \<and> length out = nat (outputSize q)"
proof -
  from assms(1) have pos: "0 < inputSize q" "0 < hiddenSize q" "0 < outputSize q"
    and d1: "is_dense (nat (hiddenSize q)) (nat (inputSize q)) (w1 q)"
    and l1: "length (b1 q) = nat (hiddenSize q)"
    and d2: "is_dense (nat (outputSize q)) (nat (hiddenSize q)) (w2 q)"
    and l2: "length (b2 q) = nat (outputSize q)"
    by (simp_all add: wf_net_def)
  from assms(2) have isz: "inputSize q = int (length state)" by simp
  have c1: "ncols (w1 q) = length state"
    using ncols_dense [OF d1] pos isz by simp
  have r1: "nrows (w1 q) = nat (hiddenSize q)" by (rule nrows_dense [OF d1])
  have c2: "ncols (w2 q) = nat (hiddenSize q)"
    using ncols_dense [OF d2] pos by simp
  have r2: "nrows (w2 q) = nat (outputSize q)" by (rule nrows_dense [OF d2])
  have x: "NewVecDense (int (length state)) (Some state) = Inr state"
    using pos isz by (simp add: NewVecDense_def)
  have h0: "NewVecDense (hiddenSize q) None = Inr (replicate (nat (hiddenSize q)) 0)"
    using pos by (simp add: NewVecDense_def)
  have o0: "NewVecDense (outputSize q) None = Inr (replicate (nat (outputSize q)) 0)"
    using pos by (simp add: NewVecDense_def)
  have len1: "length (w1 q) = nat (hiddenSize q)" using r1 by (simp add: nrows_def)
  have len2: "length (w2 q) = nat (outputSize q)" using r2 by (simp add: nrows_def)
  show ?thesis
    by (simp add: Predict_def isz x h0 o0 MulVec_def AddVec_def c1 r1 c2 r2 l1 l2 len1 len2)
qed

lemma wf_net_tie: "wf_net net_tie"
  by (simp add: wf_net_def net_tie_def is_dense_def)

lemma Predict_tie: "Predict net_tie [1] = Inr [1, 1, 0]"
  by (simp add: Predict_def net_tie_def gonum_defs ReLU_def)

section \<open>Train\<close>

lemma Max_loop_fold: "Max_loop m xs = fold max xs m"
  by (induction xs arbitrary: m) (simp_all add: max_def)

lemma Max_go_Max:
  assumes "arr \<noteq> []"
  shows "Max_go arr = Inr (Max (set arr))"
proof -
  from assms obtain a0 rest where arr: "arr = a0 # rest" by (cases arr) auto
  have "Max_loop a0 (a0 # rest) = fold max rest a0"
    by (simp add: Max_loop_fold)
  also have "\<dots> = Max (set (a0 # rest))"
    by (simp only: Max.set_eq_fold)
  finally show ?thesis using arr by (simp add: Max_go_def)
qed

text \<open>
  The conversion of the reward: exact up to \<open>2\<^sup>5\<^sup>3\<close> in magnitude, rounded beyond.
\<close>

lemma ulp_loop_stop: "u \<noteq> 0 \<Longrightarrow> m < 2 ^ 53 * u \<Longrightarrow> ulp_loop m u = u"
  by (subst ulp_loop.simps) simp

lemma ulp_loop_step: "u \<noteq> 0 \<Longrightarrow> \<not> m < 2 ^ 53 * u \<Longrightarrow> ulp_loop m u = ulp_loop m (2 * u)"
  by (subst ulp_loop.simps) simp

lemma float64_of_int_exact:
  assumes "\<bar>n\<bar> \<le> 2 ^ 53"
  shows "float64_of_int n = real_of_int n"
proof -
  define m where "m = nat \<bar>n\<bar>"
  define u where "u = ulp_loop m 1"
  define k where "k = (if 2 * (m mod u) < u \<or> (2 * (m mod u) = u \<and> even (m div u))
                       then m div u else m div u + 1)"
  have f: "float64_of_int n = (if n < 0 then - real (k * u) else real (k * u))"
    unfolding float64_of_int_def Let_def m_def u_def k_def by (rule refl)
  have m53: "m \<le> 2 ^ 53" using assms unfolding m_def by (simp add: nat_le_iff)
  have ku: "k * u = m"
  proof (cases "m < 2 ^ 53")
    case True
    have "u = 1" unfolding u_def using True by (subst ulp_loop.simps) simp
    then show ?thesis by (simp add: k_def)
  next
    case False
    with m53 have m: "m = 2 ^ 53" by simp
    have "ulp_loop (2 ^ 53) 1 = ulp_loop (2 ^ 53) 2"
      by (subst ulp_loop.simps) simp
    also have "\<dots> = 2"
      by (subst ulp_loop.simps) simp
    finally have "u = 2" unfolding u_def m .
    then show ?thesis by (simp add: k_def m)
  qed
  have "real m = \<bar>real_of_int n\<bar>" unfolding m_def by simp
  then show ?thesis unfolding f ku by (simp add: abs_if split: if_splits)
qed

lemma float64_of_int_tie_down: "float64_of_int 9007199254740993 = 9007199254740992"
  by (simp add: float64_of_int_def Let_def ulp_loop_stop ulp_loop_step)

lemma float64_of_int_tie_up: "float64_of_int 9007199254740995 = 9007199254740996"
  by (simp add: float64_of_int_def Let_def ulp_loop_stop ulp_loop_step)

lemma float64_of_int_negative: "float64_of_int (- 9007199254740993) = - 9007199254740992"
  by (simp add: float64_of_int_def Let_def ulp_loop_stop ulp_loop_step)

text \<open>
  C3, as the code has it. When \<^verbatim>\<open>Predict(nextState)\<close> returns \<open>nextQ\<close> and \<open>action\<close> is an
  index of it, the target that \<^verbatim>\<open>Train\<close> hands to \<^verbatim>\<open>Backward\<close> has the length of
  \<open>nextQ\<close> and agrees with it at every index but \<open>action\<close>; at \<open>action\<close> it holds
  \<^verbatim>\<open>float64(reward)\<close> when \<open>done\<close> is true, whatever \<open>gamma\<close> and \<open>nextQ\<close> are, and
  \<^verbatim>\<open>float64(reward)\<close> \<open>+ gamma \<cdot> max nextQ\<close> otherwise. The converted reward is the
  reward itself when its magnitude is at most \<open>2\<^sup>5\<^sup>3\<close>.
\<close>

theorem Train_target_bellman:
  assumes "Predict (qNetwork d) nextState = Inr nextQ" "0 \<le> action" "action < int (length nextQ)"
  shows "\<exists>target. Train_target d nextState action reward done = Inr target \<and>
           length target = length nextQ \<and>
           (\<forall>i<length nextQ. i \<noteq> nat action \<longrightarrow> target ! i = nextQ ! i) \<and>
           target ! nat action =
             (if done then float64_of_int reward
              else float64_of_int reward + gamma d * Max (set nextQ)) \<and>
           (\<bar>reward\<bar> \<le> 2 ^ 53 \<longrightarrow> float64_of_int reward = real_of_int reward) \<and>
           Train d state nextState action reward done =
             bindE (Predict (qNetwork d) state) (\<lambda>currentQ.
             bindE (Backward (qNetwork d) state currentQ target (learningRate d)) (\<lambda>q'.
               Inr (d\<lparr>qNetwork := q'\<rparr>)))"
proof -
  from assms(2,3) have ne: "nextQ \<noteq> []" by auto
  have mx: "Max_go nextQ = Inr (Max (set nextQ))" by (rule Max_go_Max [OF ne])
  have idx: "nat action < length nextQ" using assms(2,3) by simp
  define target where "target =
    nextQ[nat action := (if done then float64_of_int reward
                         else float64_of_int reward + gamma d * Max (set nextQ))]"
  have t: "Train_target d nextState action reward done = Inr target"
    using assms idx by (simp add: Train_target_def mx store_at_def target_def)
  have "length target = length nextQ" by (simp add: target_def)
  moreover have "\<forall>i<length nextQ. i \<noteq> nat action \<longrightarrow> target ! i = nextQ ! i"
    by (simp add: target_def)
  moreover have "target ! nat action =
      (if done then float64_of_int reward else float64_of_int reward + gamma d * Max (set nextQ))"
    using idx by (simp add: target_def)
  moreover have "\<bar>reward\<bar> \<le> 2 ^ 53 \<longrightarrow> float64_of_int reward = real_of_int reward"
    by (simp add: float64_of_int_exact)
  moreover have "Train d state nextState action reward done =
      bindE (Predict (qNetwork d) state) (\<lambda>currentQ.
      bindE (Backward (qNetwork d) state currentQ target (learningRate d)) (\<lambda>q'.
        Inr (d\<lparr>qNetwork := q'\<rparr>)))"
    by (simp add: Train_def t)
  ultimately show ?thesis using t by blast
qed

theorem Train_target_bellman_witness:
  "Predict (qNetwork dqn_tie) [1] = Inr [1, 1, 0] \<and> (0::int) \<le> 1 \<and>
   (1::int) < int (length [1, 1, 0 :: real]) \<and> \<bar>5 :: int\<bar> \<le> 2 ^ 53 \<and>
   Train_target dqn_tie [1] 1 5 False = Inr [1, 59 / 10, 0] \<and>
   Train_target dqn_tie [1] 1 5 True = Inr [1, 5, 0]"
  using Train_target_bellman [of dqn_tie "[1]" "[1, 1, 0]" 1 5 False]
  by (simp add: dqn_tie_def Predict_tie Train_target_def Max_go_def store_at_def
      float64_of_int_exact)

text \<open>
  C3 as stated fails for the reward \<open>2\<^sup>5\<^sup>3 + 1\<close> on a terminal transition: the target
  holds \<open>2\<^sup>5\<^sup>3\<close> at \<open>action\<close>, not the reward.
\<close>

theorem Train_target_reward_counterexample:
  "Train_target dqn_tie [1] 1 9007199254740993 True = Inr [1, 9007199254740992, 0] \<and>
   (9007199254740992 :: real) \<noteq> real_of_int 9007199254740993"
  by (simp add: dqn_tie_def Predict_tie Train_target_def Max_go_def store_at_def
      float64_of_int_def Let_def ulp_loop_stop ulp_loop_step)

section \<open>EpsilonGreedyPolicy\<close>

text \<open>
  The invariant of the scan of \<^verbatim>\<open>Argmax\<close>: \<open>pre\<close> has been scanned, \<open>maxIdx\<close> is the
  first index of \<open>pre\<close> that holds its maximum \<open>maxVal\<close>.
\<close>

lemma Argmax_loop_inv:
  assumes "arr = pre @ rest" "i = length pre" "mi < length arr" "arr ! mi = mv"
    "\<forall>j<i. arr ! j \<le> mv" "\<forall>j<mi. arr ! j < mv"
  shows "case Argmax_loop i rest (mi, mv) of (ri, rv) \<Rightarrow>
           ri < length arr \<and> arr ! ri = rv \<and> (\<forall>j<length arr. arr ! j \<le> rv) \<and>
           (\<forall>j<ri. arr ! j < rv)"
  using assms
proof (induction rest arbitrary: pre i mi mv)
  case Nil
  then show ?case by simp
next
  case (Cons val rest)
  have val: "arr ! i = val" using Cons.prems(1,2) by simp
  have ilt: "i < length arr" using Cons.prems(1,2) by simp
  have split: "arr = (pre @ [val]) @ rest" "Suc i = length (pre @ [val])"
    using Cons.prems(1,2) by simp_all
  show ?case
  proof (cases "val > mv")
    case True
    have a: "\<forall>j<Suc i. arr ! j \<le> val"
      using Cons.prems(5) True val by (auto simp: less_Suc_eq intro: order_trans less_imp_le)
    have b: "\<forall>j<i. arr ! j < val"
      using Cons.prems(5) True by (auto intro: le_less_trans)
    from Cons.IH [OF split ilt val a b] True show ?thesis by simp
  next
    case False
    have a: "\<forall>j<Suc i. arr ! j \<le> mv"
      using Cons.prems(5) False val by (auto simp: less_Suc_eq)
    from Cons.IH [OF split Cons.prems(3,4) a Cons.prems(6)] False show ?thesis by simp
  qed
qed

lemma Argmax_first_max:
  assumes "arr \<noteq> []"
  shows "\<exists>i. Argmax arr = Inr (int i) \<and> i < length arr \<and> arr ! i = Max (set arr) \<and>
              (\<forall>j<i. arr ! j < arr ! i)"
proof -
  from assms obtain a0 tl0 where arr: "arr = a0 # tl0" by (cases arr) auto
  obtain ri rv where r: "Argmax_loop 0 arr (0, a0) = (ri, rv)"
    by (cases "Argmax_loop 0 arr (0, a0)")
  have "case Argmax_loop 0 arr (0, a0) of (ri, rv) \<Rightarrow>
           ri < length arr \<and> arr ! ri = rv \<and> (\<forall>j<length arr. arr ! j \<le> rv) \<and>
           (\<forall>j<ri. arr ! j < rv)"
    by (rule Argmax_loop_inv [where pre = "[]"]) (simp_all add: arr)
  with r have p: "ri < length arr" "arr ! ri = rv" "\<forall>j<length arr. arr ! j \<le> rv"
    "\<forall>j<ri. arr ! j < rv"
    by simp_all
  have "Max (set arr) = rv"
  proof (rule Max_eqI)
    show "finite (set arr)" by simp
    show "\<And>y. y \<in> set arr \<Longrightarrow> y \<le> rv" using p(3) by (auto simp: in_set_conv_nth)
    show "rv \<in> set arr" using p(1,2) by (auto simp: in_set_conv_nth)
  qed
  moreover have "Argmax arr = Inr (int ri)"
    using r arr by (simp add: Argmax_def)
  ultimately show ?thesis using p by auto
qed

text \<open>
  C4. With \<open>epsilon = 0\<close> the draw \<open>u \<ge> 0\<close> of \<^verbatim>\<open>rand.Float64()\<close> is never below
  \<open>epsilon\<close>, so on a state of the network's input length the policy returns, whatever
  the two draws are, the index \<open>i\<close> that \<^verbatim>\<open>Argmax\<close> finds in \<^verbatim>\<open>Predict(state)\<close>: the
  value at \<open>i\<close> is the maximum, every value before \<open>i\<close> is strictly smaller, and \<open>i\<close> is
  the least index that holds the maximum.
\<close>

theorem EpsilonGreedyPolicy_greedy:
  assumes "wf_net (qNetwork d)" "int (length state) = inputSize (qNetwork d)"
    "epsilon d = 0" "0 \<le> u"
  shows "\<exists>qValues i. Predict (qNetwork d) state = Inr qValues \<and>
           EpsilonGreedyPolicy d state numActions u s = Inr (int i) \<and>
           i < length qValues \<and> qValues ! i = Max (set qValues) \<and>
           (\<forall>j<i. qValues ! j < qValues ! i) \<and>
           i = (LEAST k. k < length qValues \<and> qValues ! k = Max (set qValues))"
proof -
  from Predict_wf [OF assms(1,2)] obtain qValues where
    p: "Predict (qNetwork d) state = Inr qValues" "length qValues = nat (outputSize (qNetwork d))"
    by blast
  from assms(1) have "0 < outputSize (qNetwork d)" by (simp add: wf_net_def)
  with p(2) have ne: "qValues \<noteq> []" by auto
  from Argmax_first_max [OF ne] obtain i where
    i: "Argmax qValues = Inr (int i)" "i < length qValues" "qValues ! i = Max (set qValues)"
       "\<forall>j<i. qValues ! j < qValues ! i" by blast
  have least: "(LEAST k. k < length qValues \<and> qValues ! k = Max (set qValues)) = i"
  proof (rule Least_equality)
    show "i < length qValues \<and> qValues ! i = Max (set qValues)" using i by simp
  next
    fix k assume "k < length qValues \<and> qValues ! k = Max (set qValues)"
    then show "i \<le> k" using i(3,4) by (metis not_le_imp_less order_less_irrefl)
  qed
  have "EpsilonGreedyPolicy d state numActions u s = Inr (int i)"
    using assms(3,4) p(1) i(1) by (simp add: EpsilonGreedyPolicy_def)
  with p(1) i least show ?thesis by blast
qed

theorem EpsilonGreedyPolicy_greedy_witness:
  "wf_net (qNetwork dqn_tie) \<and> int (length [1 :: real]) = inputSize (qNetwork dqn_tie) \<and>
   epsilon dqn_tie = 0 \<and> (0::real) \<le> 1 / 2 \<and>
   Predict (qNetwork dqn_tie) [1] = Inr [1, 1, 0] \<and>
   EpsilonGreedyPolicy dqn_tie [1] 3 (1 / 2) 7 = Inr 0"
  using EpsilonGreedyPolicy_greedy [of dqn_tie "[1]" "1 / 2" 3 7]
  by (simp add: dqn_tie_def wf_net_tie Predict_tie EpsilonGreedyPolicy_def Argmax_def)
      (simp add: net_tie_def)

text \<open>
  C5, as the code has it. On a state of the network's input length and with
  \<open>numActions > 0\<close> the policy returns an index that is not negative; the index is below
  \<open>numActions\<close> in the exploring branch and below the network's \<open>outputSize\<close> in the greedy
  branch, hence below \<open>numActions\<close> in both when \<open>outputSize \<le> numActions\<close>.
\<close>

theorem EpsilonGreedyPolicy_range:
  assumes "wf_net (qNetwork d)" "int (length state) = inputSize (qNetwork d)" "0 < numActions"
  shows "\<exists>a. EpsilonGreedyPolicy d state numActions u s = Inr a \<and> 0 \<le> a \<and>
           (if u < epsilon d then a < numActions else a < outputSize (qNetwork d)) \<and>
           (outputSize (qNetwork d) \<le> numActions \<longrightarrow> a < numActions)"
proof (cases "u < epsilon d")
  case True
  then have "EpsilonGreedyPolicy d state numActions u s = Inr (int s mod numActions)"
    using assms(3) by (simp add: EpsilonGreedyPolicy_def Intn_def)
  with True assms(3) show ?thesis by simp
next
  case False
  from Predict_wf [OF assms(1,2)] obtain qValues where
    p: "Predict (qNetwork d) state = Inr qValues" "length qValues = nat (outputSize (qNetwork d))"
    by blast
  from assms(1) have pos: "0 < outputSize (qNetwork d)" by (simp add: wf_net_def)
  with p(2) have ne: "qValues \<noteq> []" by auto
  from Argmax_first_max [OF ne] obtain i where
    i: "Argmax qValues = Inr (int i)" "i < length qValues" by blast
  have "EpsilonGreedyPolicy d state numActions u s = Inr (int i)"
    using False p(1) i(1) by (simp add: EpsilonGreedyPolicy_def)
  moreover have "int i < outputSize (qNetwork d)" using i(2) p(2) pos by simp
  ultimately show ?thesis using False by simp
qed

theorem EpsilonGreedyPolicy_range_witness:
  "wf_net (qNetwork dqn_explore) \<and> int (length [1 :: real]) = inputSize (qNetwork dqn_explore) \<and>
   (0::int) < 3 \<and>
   EpsilonGreedyPolicy dqn_explore [1] 3 (1 / 4) 7 = Inr 1 \<and>
   EpsilonGreedyPolicy dqn_explore [1] 3 (3 / 4) 7 = Inr 0"
  using EpsilonGreedyPolicy_range [of dqn_explore "[1]" 3 "1 / 4" 7]
  by (simp add: dqn_explore_def wf_net_tie Predict_tie EpsilonGreedyPolicy_def Argmax_def Intn_def)
      (simp add: net_tie_def)

text \<open>
  C5 as stated fails for a network with three outputs asked for one of two actions: with
  \<open>epsilon = 0\<close> the policy returns the index 2 of the largest output.
\<close>

theorem EpsilonGreedyPolicy_range_counterexample:
  "EpsilonGreedyPolicy dqn_last [1] 2 0 0 = Inr 2 \<and>
   \<not> in_action_range 2 (EpsilonGreedyPolicy dqn_last [1] 2 0 0)"
  by (simp add: EpsilonGreedyPolicy_def dqn_last_def Predict_def net_last_def gonum_defs ReLU_def
      Argmax_def in_action_range_def)

section \<open>Backward\<close>

text \<open>
  What the first part of \<^verbatim>\<open>Backward\<close> computes on a well-formed network and vectors
  of the right lengths. The derivative is taken at \<open>h\<close>, the hidden values after the
  activation has been applied to them.
\<close>

lemma Backward_gradients_wf:
  assumes "wf_net q" "int (length state) = inputSize q"
    "int (length prediction) = outputSize q" "int (length target) = outputSize q"
  shows "Backward_gradients q state prediction target =
     (let h = map (activation q) (map2 (+) (map (\<lambda>row. dot row state) (w1 q)) (b1 q));
          dOut = map2 (-) prediction target;
          dH = map2 (*) (map (\<lambda>col. dot col dOut) (T (w2 q)))
                 (map (\<lambda>x. (activation q (x + 1 / 10000) - activation q (x - 1 / 10000)) /
                            (2 * (1 / 10000))) h)
      in Inr (map (\<lambda>di. map (\<lambda>hj. 1 * di * hj) h) dOut, dOut,
              map (\<lambda>di. map (\<lambda>xj. 1 * di * xj) state) dH, dH))"
proof -
  from assms(1) have pos: "0 < inputSize q" "0 < hiddenSize q" "0 < outputSize q"
    and d1: "is_dense (nat (hiddenSize q)) (nat (inputSize q)) (w1 q)"
    and l1: "length (b1 q) = nat (hiddenSize q)"
    and d2: "is_dense (nat (outputSize q)) (nat (hiddenSize q)) (w2 q)"
    by (simp_all add: wf_net_def)
  have isz: "inputSize q = int (length state)" using assms(2) by simp
  have osz: "outputSize q = int (length target)" using assms(4) by simp
  have hsz: "hiddenSize q = int (length (b1 q))" using l1 pos by simp
  have lp: "length prediction = length target" using assms(3,4) by simp
  have ne: "state \<noteq> []" "target \<noteq> []" "b1 q \<noteq> []"
    using pos isz osz hsz by auto
  have np: "NewVecDense (int (length target)) (Some prediction) = Inr prediction"
    using ne lp by (simp add: NewVecDense_def)
  have c1: "ncols (w1 q) = length state"
    using ncols_dense [OF d1] pos isz by simp
  have r1: "nrows (w1 q) = length (b1 q)" using nrows_dense [OF d1] l1 by simp
  have c2: "ncols (w2 q) = length (b1 q)"
    using ncols_dense [OF d2] pos l1 by simp
  have r2: "nrows (w2 q) = length target" using nrows_dense [OF d2] osz by simp
  have len1: "length (w1 q) = length (b1 q)" using r1 by (simp add: nrows_def)
  have c2T: "ncols (T (w2 q)) = length target"
    using ncols_T [of "w2 q"] c2 r2 ne by simp
  have lenT: "length (T (w2 q)) = length (b1 q)" using c2 by (simp add: T_def)
  show ?thesis
    unfolding Backward_gradients_def isz osz hsz
    by (simp add: NewVecDense_Some NewVecDense_None NewDense_pos ne np lp MulVec_def
        AddVec_def SubVec_def MulElemVec_def Outer_def applyDerivative_def c1 r1 c2 c2T len1
        lenT Let_def o_def)
qed

text \<open>
  What the second part computes. \<^verbatim>\<open>q.w2.Scale(-learningRate, dW2)\<close> stores
  \<open>-learningRate \<cdot> dW2\<close> in \<open>w2\<close>, and \<^verbatim>\<open>q.w2.Add(q.w2, dW2)\<close> then adds \<open>dW2\<close> to it:
  the new \<open>w2\<close> is computed from the gradient alone, and likewise the new \<open>w1\<close>. The two
  biases are updated from their old values.
\<close>

lemma map2_scale_add: "map2 (+) (map ((*) c) xs) xs = map (\<lambda>g. c * g + g) (xs :: real list)"
  by (induction xs) simp_all

lemma map2_map2_scale_add:
  "map2 (map2 (+)) (map (map ((*) c)) a) a = map (map (\<lambda>g. c * g + g)) (a :: real list list)"
  by (induction a) (simp_all add: map2_scale_add)

lemma Scale_then_Add:
  "bindE (Scale recv c g) (\<lambda>wa. bindE (Add_mat wa wa g) f) =
     (if nrows recv \<noteq> nrows g \<or> ncols recv \<noteq> ncols g then Inl ErrShape
      else f (map (map (\<lambda>x. c * x + x)) g))"
  by (simp add: Scale_def Add_mat_def nrows_def map2_map2_scale_add)

lemma Backward_result:
  assumes "Backward q state prediction target lr = Inr q'"
  shows "\<exists>dW2 dB2 dW1 dB1.
           Backward_gradients q state prediction target = Inr (dW2, dB2, dW1, dB1) \<and>
           w2 q' = map (map (\<lambda>g. - lr * g + g)) dW2 \<and>
           b2 q' = map2 (\<lambda>u v. u + - lr * v) (b2 q) dB2 \<and>
           w1 q' = map (map (\<lambda>g. - lr * g + g)) dW1 \<and>
           b1 q' = map2 (\<lambda>u v. u + - lr * v) (b1 q) dB1"
proof (cases "Backward_gradients q state prediction target")
  case (Inl e)
  with assms show ?thesis by (simp add: Backward_def)
next
  case (Inr g)
  obtain dW2 dB2 dW1 dB1 where g: "g = (dW2, dB2, dW1, dB1)" by (cases g) auto
  from assms show ?thesis
    unfolding Backward_def Inr g
    by (simp add: Scale_then_Add AddScaledVec_def split: if_splits) auto
qed

text \<open>
  A call of \<^verbatim>\<open>Backward\<close> that returns leaves the shapes of a well-formed network as
  they were, so the networks \<^verbatim>\<open>Train\<close> produces are well formed too.
\<close>

lemma is_dense_outer: "is_dense (length x) (length y) (map (\<lambda>xi. map (f xi) y) x)"
  by (simp add: is_dense_def list_all_iff)

lemma is_dense_map_map: "is_dense r c a \<Longrightarrow> is_dense r c (map (map f) a)"
  by (simp add: is_dense_def list_all_iff)

lemma Backward_preserves_wf:
  assumes "wf_net q" "int (length state) = inputSize q"
    "int (length prediction) = outputSize q" "int (length target) = outputSize q"
    "Backward q state prediction target lr = Inr q'"
  shows "wf_net q'"
proof -
  define h where "h = map (activation q) (map2 (+) (map (\<lambda>row. dot row state) (w1 q)) (b1 q))"
  define dOut where "dOut = map2 (-) prediction target"
  define dH where "dH = map2 (*) (map (\<lambda>col. dot col dOut) (T (w2 q)))
                 (map (\<lambda>x. (activation q (x + 1 / 10000) - activation q (x - 1 / 10000)) /
                            (2 * (1 / 10000))) h)"
  have g: "Backward_gradients q state prediction target =
      Inr (map (\<lambda>di. map (\<lambda>hj. 1 * di * hj) h) dOut, dOut,
           map (\<lambda>di. map (\<lambda>xj. 1 * di * xj) state) dH, dH)"
    using Backward_gradients_wf [OF assms(1-4)] by (simp add: Let_def h_def dOut_def dH_def)
  from assms(1) have pos: "0 < inputSize q" "0 < hiddenSize q" "0 < outputSize q"
    and d1: "is_dense (nat (hiddenSize q)) (nat (inputSize q)) (w1 q)"
    and l1: "length (b1 q) = nat (hiddenSize q)"
    and d2: "is_dense (nat (outputSize q)) (nat (hiddenSize q)) (w2 q)"
    and l2: "length (b2 q) = nat (outputSize q)"
    by (simp_all add: wf_net_def)
  have lh: "length h = nat (hiddenSize q)"
    using d1 l1 by (simp add: h_def is_dense_def)
  have lo: "length dOut = nat (outputSize q)"
    using assms(3,4) by (simp add: dOut_def)
  have lT: "length (T (w2 q)) = nat (hiddenSize q)"
    using ncols_dense [OF d2] pos by (simp add: T_def)
  have ldH: "length dH = nat (hiddenSize q)"
    using lT lh by (simp add: dH_def)
  have ls: "length state = nat (inputSize q)" using assms(2) by simp
  from Backward_result [OF assms(5)] g have
    r: "w2 q' = map (map (\<lambda>g. - lr * g + g)) (map (\<lambda>di. map (\<lambda>hj. 1 * di * hj) h) dOut)"
       "b2 q' = map2 (\<lambda>u v. u + - lr * v) (b2 q) dOut"
       "w1 q' = map (map (\<lambda>g. - lr * g + g)) (map (\<lambda>di. map (\<lambda>xj. 1 * di * xj) state) dH)"
       "b1 q' = map2 (\<lambda>u v. u + - lr * v) (b1 q) dH"
    by simp_all
  have sz: "inputSize q' = inputSize q" "hiddenSize q' = hiddenSize q" "outputSize q' = outputSize q"
    using assms(5) by (auto simp: Backward_def bindE_def split: sum.splits prod.splits)
  have "is_dense (nat (outputSize q)) (nat (hiddenSize q)) (w2 q')"
    unfolding r using is_dense_outer [of dOut h] lo lh by (intro is_dense_map_map) simp
  moreover have "is_dense (nat (hiddenSize q)) (nat (inputSize q)) (w1 q')"
    unfolding r using is_dense_outer [of dH state] ldH ls by (intro is_dense_map_map) simp
  moreover have "length (b2 q') = nat (outputSize q)" unfolding r using l2 lo by simp
  moreover have "length (b1 q') = nat (hiddenSize q)" unfolding r using l1 ldH by simp
  ultimately show ?thesis using pos by (simp add: wf_net_def sz)
qed

text \<open>
  C1 fails on the code. The network \<open>net_a\<close> has \<open>w1 = [[1]]\<close> and \<open>w2 = [[2]]\<close>; on the
  state \<open>[1]\<close> it predicts \<open>[2]\<close>. \<^verbatim>\<open>Backward\<close> with that prediction, the target \<open>[1]\<close>
  and \<open>learningRate = 0\<close> does not leave the network as it was: it returns \<open>w2 = [[1]]\<close>,
  which is the gradient \<open>dW2\<close>, and \<open>w1 = [[2]]\<close>, which is \<open>dW1\<close>.
\<close>

theorem Backward_overwrites_weights:
  "Backward net_a [1] [2] [1] 0 = Inr (net_a\<lparr>w1 := [[2]], w2 := [[1]]\<rparr>) \<and>
   Predict net_a [1] = Inr [2] \<and> w1 net_a = [[1]] \<and> w2 net_a = [[2]]"
  by (simp add: Backward_def Backward_gradients_def Predict_def net_a_def gonum_defs ReLU_def)

text \<open>
  C2 fails on the code. On \<open>net_b\<close> and the state \<open>[-1]\<close> the pre-activation hidden value
  is \<open>-1\<close>, where the finite difference of \<open>ReLU\<close> is 0, so the hidden error of the
  specification is \<open>[0]\<close>. The code takes the finite difference at \<open>ReLU (-1) = 0\<close>, where
  it is \<open>1/2\<close>, and computes the hidden error \<open>dB1 = [1/2]\<close>.
\<close>

theorem Backward_derivative_after_activation:
  "Backward_gradients net_b [- 1] [0] [- 1] = Inr ([[0]], [1], [[- 1 / 2]], [1 / 2]) \<and>
   Predict net_b [- 1] = Inr [0] \<and>
   spec_hidden_error net_b [- 1] [0] [- 1] = [0]"
  by (simp add: Backward_gradients_def Predict_def spec_hidden_error_def net_b_def gonum_defs
      ReLU_def)

end
